theory Spec2Isabelle
  imports Main
begin

section \<open>The DingTalk sink of kube-eventer (sinks/dingtalk/dingtalk.go)\<close>

text \<open>
  The sink receives batches of Kubernetes events and forwards some of them to a chat
  webhook. Everything the Go code does beyond computing a value is explicit here:
  \<^item> the calls that reach the outside world (the HTTP POST, the 50ms sleep, the log lines)
    are appended, in the order they happen, to a trace of actions;
  \<^item> the webhook is an environment \<open>net\<close> that, given the trace up to and including a
    POST, gives what \<open>http.Post\<close> returns for it;
  \<^item> a run-time panic of Go (a nil dereference, an index out of range) is a value: the
    outcome \<open>Panicked\<close> of a routine, or \<open>Inl (Panic _)\<close> of the constructor.
  Strings are byte lists, as Go's are.
\<close>

subsection \<open>Data\<close>

text \<open>
  The fields of \<open>v1.Event\<close> that the sink reads. \<open>LastTimestamp\<close> holds the text that
  \<open>event.LastTimestamp.String()\<close> gives. Batch entries are events, not nil pointers.
\<close>

record ObjectReference =
  Kind :: string

record Event =
  Type :: string
  InvolvedObject :: ObjectReference
  Namespace :: string
  Name :: string
  Reason :: string
  LastTimestamp :: string
  Message :: string

text \<open>
  \<open>Namespaces\<close> and \<open>Kinds\<close> are Go slices that the code compares with nil:
  \<open>None\<close> is the nil slice, \<open>Some xs\<close> a non-nil slice (\<open>Some []\<close> is the non-nil empty
  slice \<open>[]string{}\<close>). \<open>Labels\<close> is only measured with \<open>len\<close>, so nil is \<open>[]\<close>.
\<close>

record DingTalkSink =
  Endpoint :: string
  Namespaces :: "string list option"
  Kinds :: "string list option"
  Token :: string
  Level :: int
  Labels :: "string list"

record DingTalkText =
  Content :: string

record DingTalkMsg =
  MsgType :: string
  Text :: DingTalkText

text \<open>
  The parts of \<open>url.URL\<close> the constructor reads. \<open>Query\<close> is the \<open>url.Values\<close> that
  \<open>uri.Query()\<close> returns, read the way Go reads a map of slices: a key that is
  absent gives the nil slice \<open>[]\<close>.
\<close>

record URL =
  Host :: string
  Path :: string
  Query :: "string \<Rightarrow> string list"

datatype panic = NilPointerDereference | IndexOutOfRange

datatype failure = Error string | Panic panic

datatype outcome = Returned | Panicked panic

text \<open>
  A JSON value, as far as the payload needs it: the value the request body denotes, its
  strings in UTF-8.
\<close>

datatype json = JString string | JObject "(string \<times> json) list"

record Response =
  StatusCode :: int

text \<open>What \<open>http.Post\<close> returns: the response pointer and the error, each possibly nil.\<close>

type_synonym post_result = "Response option \<times> string option"

datatype action =
    HttpPost string string json
  | Sleep nat
  | LogWarning
  | LogError string int

type_synonym network = "action list \<Rightarrow> post_result"

subsection \<open>Constants\<close>

definition WARNING :: int where "WARNING = 2"
definition NORMAL :: int where "NORMAL = 1"
definition DEFAULT_MSG_TYPE :: string where "DEFAULT_MSG_TYPE = ''text''"
definition CONTENT_TYPE_JSON :: string where "CONTENT_TYPE_JSON = ''application/json''"
definition LABE_TEMPLATE :: string where "LABE_TEMPLATE = ''%s\<newline>''"

definition MSG_TEMPLATE :: string where
  "MSG_TEMPLATE = ''Level:%s \<newline>Kind:%s \<newline>Namespace:%s \<newline>Name:%s \<newline>Reason:%s \<newline>Timestamp:%s \<newline>Message:%s''"

text \<open>The constants of the Kubernetes API and of net/http that the code names.\<close>

definition EventTypeWarning :: string where "EventTypeWarning = ''Warning''"
definition EventTypeNormal :: string where "EventTypeNormal = ''Normal''"
definition StatusOK :: int where "StatusOK = 200"

subsection \<open>The library calls: fmt.Sprintf, strings.Split, json.Marshal\<close>

text \<open>
  \<open>fmt.Sprintf\<close> on string operands. The format is copied up to a \<open>%\<close>; then
  \<^item> \<open>%s\<close> prints the next operand, or \<open>%!s(MISSING)\<close> when none is left;
  \<^item> \<open>%%\<close> prints a percent sign and takes no operand;
  \<^item> \<open>%\<close> before a line feed is a bad verb: it takes the next operand and prints
    \<open>%!\<close>, the line feed and \<open>(string=operand)\<close>, or \<open>(MISSING)\<close> when none is left;
  \<^item> \<open>%\<close> at the end of the format prints \<open>%!(NOVERB)\<close>;
  \<^item> operands left over at the end are reported as \<open>%!(EXTRA string=..., ...)\<close>.
  Every other directive (flags, width, precision, argument indexes, other verbs) is not
  modelled: what the library prints from there on is the parameter \<open>X\<close>, applied to the
  format after the \<open>%\<close>, the operands and the index of the next operand.
\<close>

type_synonym directives = "string \<Rightarrow> string list \<Rightarrow> nat \<Rightarrow> string"

fun commaSep :: "string list \<Rightarrow> string" where
  "commaSep [] = []"
| "commaSep [x] = ''string='' @ x"
| "commaSep (x # y # ys) = ''string='' @ x @ '', '' @ commaSep (y # ys)"

definition extraArgs :: "string list \<Rightarrow> nat \<Rightarrow> string" where
  "extraArgs a argNum =
     (if argNum < length a then ''%!(EXTRA '' @ commaSep (drop argNum a) @ '')'' else [])"

fun doPrintf :: "directives \<Rightarrow> string \<Rightarrow> string list \<Rightarrow> nat \<Rightarrow> string" where
  "doPrintf X [] a argNum = extraArgs a argNum"
| "doPrintf X (c # f) a argNum =
     (if c \<noteq> CHR ''%'' then c # doPrintf X f a argNum
      else (case f of
          [] \<Rightarrow> ''%!(NOVERB)'' @ extraArgs a argNum
        | verb # f' \<Rightarrow>
            if verb = CHR ''%'' then CHR ''%'' # doPrintf X f' a argNum
            else if verb = CHR ''s'' then
              (if argNum < length a then a ! argNum @ doPrintf X f' a (Suc argNum)
               else ''%!s(MISSING)'' @ doPrintf X f' a argNum)
            else if verb = CHR 0x0A then
              (if argNum < length a
               then ''%!'' @ [verb] @ ''(string='' @ a ! argNum @ '')'' @ doPrintf X f' a (Suc argNum)
               else ''%!'' @ [verb] @ ''(MISSING)'' @ doPrintf X f' a argNum)
            else X f a argNum))"

definition Sprintf :: "directives \<Rightarrow> string \<Rightarrow> string list \<Rightarrow> string" where
  "Sprintf X format a = doPrintf X format a 0"

text \<open>
  \<open>strings.Split(s, ",")\<close>: the pieces of \<open>s\<close> between the commas, empty pieces kept; a
  string with no comma (the empty one too) gives one piece.
\<close>

fun Split :: "string \<Rightarrow> string list" where
  "Split [] = [[]]"
| "Split (c # cs) =
     (if c = CHR '','' then [] # Split cs
      else (case Split cs of [] \<Rightarrow> [[c]] | w # ws \<Rightarrow> (c # w) # ws))"

text \<open>
  \<open>utf8.DecodeRuneInString\<close>, as far as the JSON encoder uses it: \<open>Some n\<close> when the
  string starts with a well-formed encoding of \<open>n\<close> bytes, \<open>None\<close> when the library
  returns \<open>RuneError\<close> with width 1. \<open>firstByte\<close> is the library's table \<open>first\<close>: for a
  leading byte, the length of the encoding and the range accepted for the second byte.
\<close>

definition byte :: "char \<Rightarrow> nat" where
  "byte c = of_char c"

definition firstByte :: "nat \<Rightarrow> (nat \<times> nat \<times> nat) option" where
  "firstByte b =
     (if b < 0xC2 then None
      else if b \<le> 0xDF then Some (2, 0x80, 0xBF)
      else if b = 0xE0 then Some (3, 0xA0, 0xBF)
      else if b \<le> 0xEC then Some (3, 0x80, 0xBF)
      else if b = 0xED then Some (3, 0x80, 0x9F)
      else if b \<le> 0xEF then Some (3, 0x80, 0xBF)
      else if b = 0xF0 then Some (4, 0x90, 0xBF)
      else if b \<le> 0xF3 then Some (4, 0x80, 0xBF)
      else if b = 0xF4 then Some (4, 0x80, 0x8F)
      else None)"

definition continuation :: "char \<Rightarrow> bool" where
  "continuation c \<longleftrightarrow> 0x80 \<le> byte c \<and> byte c \<le> 0xBF"

definition DecodeRuneInString :: "string \<Rightarrow> nat option" where
  "DecodeRuneInString s =
     (case s of
        [] \<Rightarrow> None
      | s0 # rest \<Rightarrow>
          if byte s0 < 0x80 then Some 1
          else (case firstByte (byte s0) of
                  None \<Rightarrow> None
                | Some (sz, lo, hi) \<Rightarrow>
                    if length s < sz then None
                    else if byte (s ! 1) < lo \<or> hi < byte (s ! 1) then None
                    else if sz \<le> 2 then Some 2
                    else if \<not> continuation (s ! 2) then None
                    else if sz \<le> 3 then Some 3
                    else if \<not> continuation (s ! 3) then None
                    else Some 4))"

text \<open>The UTF-8 encoding of U+FFFD, the replacement character.\<close>

definition RuneError :: string where
  "RuneError = [CHR 0xEF, CHR 0xBF, CHR 0xBD]"

text \<open>
  The string that the JSON encoder writes for a Go string, as the text its string literal
  denotes: the encoder walks the bytes, keeps an ASCII byte and a well-formed multi-byte
  encoding (escapes denote the character they escape), and writes U+FFFD for a byte at
  which \<open>DecodeRuneInString\<close> fails. The counter is the number of bytes of the current
  encoding still to copy; the walk starts with 0.
\<close>

fun coerceUTF8 :: "nat \<Rightarrow> string \<Rightarrow> string" where
  "coerceUTF8 k [] = []"
| "coerceUTF8 k (c # cs) =
     (if 0 < k then c # coerceUTF8 (k - 1) cs
      else if byte c < 0x80 then c # coerceUTF8 0 cs
      else (case DecodeRuneInString (c # cs) of
              None \<Rightarrow> RuneError @ coerceUTF8 0 cs
            | Some sz \<Rightarrow> c # coerceUTF8 (sz - 1) cs))"

text \<open>\<open>utf8.ValidString\<close>: every byte belongs to a well-formed encoding.\<close>

fun validUTF8 :: "nat \<Rightarrow> string \<Rightarrow> bool" where
  "validUTF8 k [] = True"
| "validUTF8 k (c # cs) =
     (if 0 < k then validUTF8 (k - 1) cs
      else if byte c < 0x80 then validUTF8 0 cs
      else (case DecodeRuneInString (c # cs) of
              None \<Rightarrow> False
            | Some sz \<Rightarrow> validUTF8 (sz - 1) cs))"

text \<open>
  \<open>json.Marshal\<close> of a \<open>DingTalkMsg\<close>: the struct tags name the members, each string
  is written as the encoder writes it, and a struct of strings never fails to encode.
\<close>

definition json_Marshal :: "DingTalkMsg \<Rightarrow> string + json" where
  "json_Marshal msg =
     Inr (JObject [(''msgtype'', JString (coerceUTF8 0 (MsgType msg))),
                   (''text'', JObject [(''content'',
                      JString (coerceUTF8 0 (Content (Text msg))))])])"

subsection \<open>The severity classifier and the controller's gate\<close>

definition getLevel :: "string \<Rightarrow> int" where
  "getLevel level =
     (let score = 0 in
      if level = EventTypeWarning then score + 2
      else if level = EventTypeNormal then score + 1
      else score)"

definition isEventLevelDangerous :: "DingTalkSink \<Rightarrow> string \<Rightarrow> bool" where
  "isEventLevelDangerous d level =
     (let score = getLevel level in if score \<ge> Level d then True else False)"

subsection \<open>The renderer\<close>

definition createMsgFromEvent :: "directives \<Rightarrow> string list \<Rightarrow> Event \<Rightarrow> DingTalkMsg option" where
  "createMsgFromEvent X labels event =
     (let template =
            (if length labels > 0
             then foldl (\<lambda>template label. Sprintf X LABE_TEMPLATE [label] @ template)
                    MSG_TEMPLATE labels
             else MSG_TEMPLATE)
      in Some \<lparr>MsgType = DEFAULT_MSG_TYPE,
               Text = \<lparr>Content = Sprintf X template
                          [Type event, Kind (InvolvedObject event), Namespace event,
                           Name event, Reason event, LastTimestamp event, Message event]\<rparr>\<rparr>)"

subsection \<open>The deliver routine\<close>

text \<open>
  The two allow-list loops of \<open>Ding\<close>: \<open>skip\<close> starts true and the first entry equal to
  the event's value clears it.
\<close>

fun skip_after :: "string list \<Rightarrow> string \<Rightarrow> bool" where
  "skip_after [] x = True"
| "skip_after (entry # entries) x = (if entry = x then False else skip_after entries x)"

definition namespace_skip :: "DingTalkSink \<Rightarrow> Event \<Rightarrow> bool" where
  "namespace_skip d event =
     (case Namespaces d of
        None \<Rightarrow> False
      | Some namespaces \<Rightarrow> skip_after namespaces (Namespace event))"

definition kind_skip :: "DingTalkSink \<Rightarrow> Event \<Rightarrow> bool" where
  "kind_skip d event =
     (case Kinds d of
        None \<Rightarrow> False
      | Some kinds \<Rightarrow> skip_after kinds (Kind (InvolvedObject event)))"

definition post_url :: "directives \<Rightarrow> DingTalkSink \<Rightarrow> string" where
  "post_url X d = Sprintf X ''https://%s?access_token=%s'' [Endpoint d, Token d]"

text \<open>
  Lines 150 to 153. The condition (\<open>send_failed\<close>) reads \<open>resp.StatusCode\<close> only when
  \<open>err\<close> is nil. The log call evaluates its operands (\<open>log_operands\<close>) before it logs:
  \<open>err.Error()\<close> on a nil \<open>err\<close>, then \<open>resp.StatusCode\<close> on a nil \<open>resp\<close>, are nil
  dereferences.
\<close>

definition send_failed :: "post_result \<Rightarrow> panic + bool" where
  "send_failed r =
     (case r of (resp, err) \<Rightarrow>
        if err \<noteq> None then Inr True
        else (case resp of
                None \<Rightarrow> Inl NilPointerDereference
              | Some rs \<Rightarrow> Inr (StatusCode rs \<noteq> StatusOK)))"

definition log_operands :: "post_result \<Rightarrow> panic + action" where
  "log_operands r =
     (case r of (resp, err) \<Rightarrow>
        (case err of
           None \<Rightarrow> Inl NilPointerDereference
         | Some e \<Rightarrow>
             (case resp of
                None \<Rightarrow> Inl NilPointerDereference
              | Some rs \<Rightarrow> Inr (LogError e (StatusCode rs)))))"

definition after_post :: "post_result \<Rightarrow> action list \<Rightarrow> outcome \<times> action list" where
  "after_post r tr =
     (case send_failed r of
        Inl p \<Rightarrow> (Panicked p, tr)
      | Inr True \<Rightarrow>
          (case log_operands r of
             Inl p \<Rightarrow> (Panicked p, tr)
           | Inr line \<Rightarrow> (Returned, tr @ [line]))
      | Inr False \<Rightarrow> (Returned, tr))"

definition Ding :: "directives \<Rightarrow> network \<Rightarrow> DingTalkSink \<Rightarrow> Event \<Rightarrow> action list \<Rightarrow> outcome \<times> action list" where
  "Ding X net d event tr =
     (if namespace_skip d event then (Returned, tr)
      else if kind_skip d event then (Returned, tr)
      else (case createMsgFromEvent X (Labels d) event of
              None \<Rightarrow> (Returned, tr @ [LogWarning])
            | Some msg \<Rightarrow>
                (case json_Marshal msg of
                   Inl err \<Rightarrow> (Returned, tr @ [LogWarning])
                 | Inr b \<Rightarrow>
                     (let tr' = tr @ [HttpPost (post_url X d) CONTENT_TYPE_JSON b]
                      in after_post (net tr') tr'))))"

subsection \<open>The controller\<close>

fun ExportEvents :: "directives \<Rightarrow> network \<Rightarrow> DingTalkSink \<Rightarrow> Event list \<Rightarrow> action list \<Rightarrow> outcome \<times> action list" where
  "ExportEvents X net d [] tr = (Returned, tr)"
| "ExportEvents X net d (event # events) tr =
     (if isEventLevelDangerous d (Type event)
      then (case Ding X net d event tr of
              (Returned, tr') \<Rightarrow> ExportEvents X net d events (tr' @ [Sleep 50])
            | (Panicked p, tr') \<Rightarrow> (Panicked p, tr'))
      else ExportEvents X net d events tr)"

subsection \<open>The constructor\<close>

text \<open>
  \<open>getValues\<close> returns nil for a first value that is empty; on every other path,
  the one of an absent parameter included, it reads \<open>o[0]\<close>.
\<close>

definition getValues :: "string list \<Rightarrow> panic + string list option" where
  "getValues o' =
     (if length o' \<ge> 1 \<and> length (o' ! 0) = 0 then Inr None
      else if 0 < length o' then Inr (Some (Split (o' ! 0)))
      else Inl IndexOutOfRange)"

definition NewDingTalkSink :: "URL \<Rightarrow> failure + DingTalkSink" where
  "NewDingTalkSink uri =
     (let d = \<lparr>Endpoint = [], Namespaces = None, Kinds = None, Token = [],
               Level = WARNING, Labels = []\<rparr>;
          d = (if length (Host uri) > 0 then d\<lparr>Endpoint := Host uri @ Path uri\<rparr> else d);
          opts = Query uri
      in if \<not> length (opts ''access_token'') \<ge> 1
         then Inl (Error ''you must provide dingtalk bot access_token'')
         else
           (let d = d\<lparr>Token := opts ''access_token'' ! 0\<rparr>;
                d = (if length (opts ''level'') \<ge> 1
                     then d\<lparr>Level := getLevel (opts ''level'' ! 0)\<rparr> else d);
                d = (if length (opts ''label'') \<ge> 1
                     then d\<lparr>Labels := opts ''label''\<rparr> else d)
            in (case getValues (opts ''namespaces'') of
                  Inl p \<Rightarrow> Inl (Panic p)
                | Inr namespaces \<Rightarrow>
                    (case getValues (opts ''kinds'') of
                       Inl p \<Rightarrow> Inl (Panic p)
                     | Inr kinds \<Rightarrow> Inr (d\<lparr>Namespaces := namespaces, Kinds := kinds\<rparr>)))))"

subsection \<open>Reading a trace\<close>

fun is_post :: "action \<Rightarrow> bool" where
  "is_post (HttpPost u c b) = True"
| "is_post _ = False"

fun is_sleep :: "action \<Rightarrow> bool" where
  "is_sleep (Sleep n) = True"
| "is_sleep _ = False"

definition posts :: "action list \<Rightarrow> action list" where
  "posts tr = filter is_post tr"

definition sleeps :: "action list \<Rightarrow> action list" where
  "sleeps tr = filter is_sleep tr"

fun is_log :: "action \<Rightarrow> bool" where
  "is_log LogWarning = True"
| "is_log (LogError e code) = True"
| "is_log _ = False"



text \<open>
  The request that \<open>Ding\<close> sends for an event, and the three filters together, named once
  for the statements about whole batches.
\<close>

definition the_request :: "directives \<Rightarrow> DingTalkSink \<Rightarrow> Event \<Rightarrow> action" where
  "the_request X d event =
     HttpPost (''https://'' @ Endpoint d @ ''?access_token='' @ Token d) ''application/json''
       (JObject [(''msgtype'', JString ''text''),
                 (''text'', JObject [(''content'',
                    JString (coerceUTF8 0 (Sprintf X
                       (foldl (\<lambda>template label. label @ ''\<newline>'' @ template) MSG_TEMPLATE (Labels d))
                       [Type event, Kind (InvolvedObject event), Namespace event,
                        Name event, Reason event, LastTimestamp event, Message event])))])])"

definition passes :: "DingTalkSink \<Rightarrow> Event \<Rightarrow> bool" where
  "passes d event \<longleftrightarrow>
     \<not> namespace_skip d event \<and> \<not> kind_skip d event \<and> getLevel (Type event) \<ge> Level d"

definition base_text :: "Event \<Rightarrow> string" where
  "base_text event = ''Level:'' @ Type event @ '' \<newline>Kind:'' @ Kind (InvolvedObject event) @
     '' \<newline>Namespace:'' @ Namespace event @ '' \<newline>Name:'' @ Name event @
     '' \<newline>Reason:'' @ Reason event @ '' \<newline>Timestamp:'' @ LastTimestamp event @
     '' \<newline>Message:'' @ Message event"

subsection \<open>Concrete inputs\<close>

text \<open>
  The inputs of the closed statements below. None of their formats has a directive
  outside the modelled ones, so \<open>unused_directives\<close> is never consulted.
\<close>

definition unused_directives :: directives where
  "unused_directives = (\<lambda>f a n. [])"

definition pod_warning :: Event where
  "pod_warning = \<lparr>Type = ''Warning'', InvolvedObject = \<lparr>Kind = ''Pod''\<rparr>, Namespace = ''default'',
     Name = ''web-1'', Reason = ''BackOff'', LastTimestamp = ''2020-01-02 03:04:05 +0000 UTC'',
     Message = ''restarting''\<rparr>"

definition node_normal :: Event where
  "node_normal = \<lparr>Type = ''Normal'', InvolvedObject = \<lparr>Kind = ''Node''\<rparr>, Namespace = ''default'',
     Name = ''node-7'', Reason = ''Ready'', LastTimestamp = ''2020-01-02 03:04:06 +0000 UTC'',
     Message = ''node is ready''\<rparr>"

definition plain_sink :: DingTalkSink where
  "plain_sink = \<lparr>Endpoint = ''oapi.dingtalk.com/robot/send'', Namespaces = None, Kinds = None,
     Token = ''tok123'', Level = 2, Labels = []\<rparr>"

definition ns_a_sink :: DingTalkSink where
  "ns_a_sink = plain_sink\<lparr>Namespaces := Some [''ns-a'']\<rparr>"

text \<open>A sink whose one label is the byte 0xFF (the URI parameter \<open>label=%FF\<close>).\<close>

definition ff_sink :: DingTalkSink where
  "ff_sink = plain_sink\<lparr>Labels := [[CHR 0xFF]]\<rparr>"

text \<open>A webhook that answers every POST with the given status and no transport error.\<close>

definition reply :: "int \<Rightarrow> network" where
  "reply code = (\<lambda>tr. (Some \<lparr>StatusCode = code\<rparr>, None))"

text \<open>A webhook that answers the first POST of a run with HTTP 500 and the later ones with 200.\<close>

definition fail_first :: network where
  "fail_first = (\<lambda>tr. if length (posts tr) = 1 then (Some \<lparr>StatusCode = 500\<rparr>, None)
                       else (Some \<lparr>StatusCode = 200\<rparr>, None))"

text \<open>
  The URI of the usage comment above \<open>DingTalkSink\<close>
  (\<open>https://oapi.dingtalk.com/robot/send?access_token=...&level=Warning&label=...\<close>), and
  two that also give \<open>namespaces\<close> and \<open>kinds\<close>, as empty strings and as lists.
\<close>

definition usage_uri :: URL where
  "usage_uri = \<lparr>Host = ''oapi.dingtalk.com'', Path = ''/robot/send'',
     Query = (\<lambda>key. if key = ''access_token'' then [''tok123'']
                     else if key = ''level'' then [''Warning'']
                     else if key = ''label'' then [''cluster-1'']
                     else [])\<rparr>"


definition full_uri :: "string \<Rightarrow> URL" where
  "full_uri level = \<lparr>Host = ''oapi.dingtalk.com'', Path = ''/robot/send'',
     Query = (\<lambda>key. if key = ''access_token'' then [''tok123'']
                     else if key = ''level'' then [level]
                     else if key = ''label'' then [''foo'']
                     else if key = ''namespaces'' then [''default'']
                     else if key = ''kinds'' then [''Pod,Node'']
                     else [])\<rparr>"

section \<open>Facts about the model\<close>

subsection \<open>The library calls on the formats the code uses\<close>

lemma post_url_eq: "post_url X d = ''https://'' @ Endpoint d @ ''?access_token='' @ Token d"
  by (simp add: post_url_def Sprintf_def extraArgs_def)

lemma Sprintf_label: "Sprintf X LABE_TEMPLATE [label] = label @ ''\<newline>''"
  by (simp add: Sprintf_def LABE_TEMPLATE_def extraArgs_def)

lemma doPrintf_literal:
  "CHR ''%'' \<notin> set l \<Longrightarrow> doPrintf X (l @ f) a n = l @ doPrintf X f a n"
  by (induction l) auto

lemma foldl_labels:
  "foldl (\<lambda>template label. label @ ''\<newline>'' @ template) t labels =
     concat (map (\<lambda>label. label @ ''\<newline>'') (rev labels)) @ t"
  by (induction labels arbitrary: t) simp_all

lemma Sprintf_MSG_TEMPLATE:
  "doPrintf X MSG_TEMPLATE
     [Type event, Kind (InvolvedObject event), Namespace event, Name event, Reason event,
      LastTimestamp event, Message event] 0 = base_text event"
  by (simp add: MSG_TEMPLATE_def extraArgs_def base_text_def)

subsection \<open>The renderer and the deliver routine, unfolded\<close>

lemma createMsgFromEvent_eq:
  "createMsgFromEvent X labels event =
     Some \<lparr>MsgType = ''text'',
            Text = \<lparr>Content = Sprintf X (foldl (\<lambda>template label. label @ ''\<newline>'' @ template) MSG_TEMPLATE labels)
                       [Type event, Kind (InvolvedObject event), Namespace event,
                        Name event, Reason event, LastTimestamp event, Message event]\<rparr>\<rparr>"
  by (cases labels) (simp_all add: createMsgFromEvent_def Sprintf_label DEFAULT_MSG_TYPE_def)

lemma after_post_cases:
  "after_post (resp, err) tr =
     (case (resp, err) of
        (Some rs, None) \<Rightarrow> if StatusCode rs = 200 then (Returned, tr) else (Panicked NilPointerDereference, tr)
      | (Some rs, Some e) \<Rightarrow> (Returned, tr @ [LogError e (StatusCode rs)])
      | (None, _) \<Rightarrow> (Panicked NilPointerDereference, tr))"
  by (simp add: after_post_def send_failed_def log_operands_def StatusOK_def split: option.splits)

lemma coerceUTF8_valid: "validUTF8 k s \<Longrightarrow> coerceUTF8 k s = s"
  by (induction s arbitrary: k) (auto split: option.splits if_splits)

lemma Ding_eq:
  "Ding X net d event tr =
     (if namespace_skip d event \<or> kind_skip d event then (Returned, tr)
      else after_post (net (tr @ [the_request X d event])) (tr @ [the_request X d event]))"
  by (simp add: Ding_def createMsgFromEvent_eq json_Marshal_def post_url_eq CONTENT_TYPE_JSON_def
      the_request_def Let_def byte_def)

subsection \<open>Traces\<close>

lemma posts_append: "posts (xs @ ys) = posts xs @ posts ys"
  by (simp add: posts_def)

lemma sleeps_append: "sleeps (xs @ ys) = sleeps xs @ sleeps ys"
  by (simp add: sleeps_def)

lemma posts_Nil: "posts [] = []"
  by (simp add: posts_def)

lemma sleeps_Nil: "sleeps [] = []"
  by (simp add: sleeps_def)

lemma posts_request: "posts [the_request X d event] = [the_request X d event]"
  by (simp add: posts_def the_request_def)

lemma sleeps_request: "sleeps [the_request X d event] = []"
  by (simp add: sleeps_def the_request_def)

lemma after_post_trace:
  "\<exists>lg. snd (after_post r tr) = tr @ lg \<and> posts lg = [] \<and> sleeps lg = []"
  by (cases r) (auto simp add: after_post_cases posts_def sleeps_def split: option.splits)

lemma Ding_trace:
  "\<exists>lg. snd (Ding X net d event tr) =
          tr @ (if namespace_skip d event \<or> kind_skip d event then [] else [the_request X d event]) @ lg
        \<and> posts lg = [] \<and> sleeps lg = []"
proof (cases "namespace_skip d event \<or> kind_skip d event")
  case True
  then show ?thesis by (simp add: Ding_eq posts_def sleeps_def)
next
  case False
  obtain lg where "snd (after_post (net (tr @ [the_request X d event])) (tr @ [the_request X d event]))
      = (tr @ [the_request X d event]) @ lg" "posts lg = []" "sleeps lg = []"
    using after_post_trace by blast
  with False show ?thesis by (simp add: Ding_eq)
qed

lemma Ding_posts:
  "posts (snd (Ding X net d event tr)) =
     posts tr @ (if namespace_skip d event \<or> kind_skip d event then [] else [the_request X d event])"
proof -
  obtain lg where "snd (Ding X net d event tr) =
          tr @ (if namespace_skip d event \<or> kind_skip d event then [] else [the_request X d event]) @ lg"
     "posts lg = []"
    using Ding_trace by blast
  then show ?thesis by (simp add: posts_append posts_request posts_Nil)
qed

lemma Ding_sleeps: "sleeps (snd (Ding X net d event tr)) = sleeps tr"
proof -
  obtain lg where "snd (Ding X net d event tr) =
          tr @ (if namespace_skip d event \<or> kind_skip d event then [] else [the_request X d event]) @ lg"
     "sleeps lg = []"
    using Ding_trace by blast
  then show ?thesis by (simp add: sleeps_append sleeps_request sleeps_Nil)
qed

lemma gate_eq: "isEventLevelDangerous d t \<longleftrightarrow> getLevel t \<ge> Level d"
  by (simp add: isEventLevelDangerous_def)

lemma namespace_skip_upd: "namespace_skip (d\<lparr>Level := l\<rparr>) (event\<lparr>Type := t\<rparr>) = namespace_skip d event"
  by (simp add: namespace_skip_def split: option.splits)

lemma kind_skip_upd: "kind_skip (d\<lparr>Level := l\<rparr>) (event\<lparr>Type := t\<rparr>) = kind_skip d event"
  by (simp add: kind_skip_def split: option.splits)


subsection \<open>Runs of the controller\<close>

text \<open>
  In a run that returns, the requests sent are those of the events that pass the three
  filters, in batch order, and there is one sleep for each event that passes the gate.
  In any run, every request sent is that of an event that passes the three filters.
\<close>

lemma ExportEvents_returned_posts:
  "ExportEvents X net d batch tr = (Returned, tr') \<Longrightarrow>
     posts tr' = posts tr @ map (the_request X d) (filter (passes d) batch)"
proof (induction batch arbitrary: tr)
  case Nil
  then show ?case by simp
next
  case (Cons event events)
  show ?case
  proof (cases "isEventLevelDangerous d (Type event)")
    case False
    then have "\<not> passes d event" by (simp add: passes_def gate_eq)
    with Cons False show ?thesis by simp
  next
    case True
    obtain oc tr1 where D: "Ding X net d event tr = (oc, tr1)" by (cases "Ding X net d event tr")
    with Cons.prems True have oc: "oc = Returned"
      by (cases oc) simp_all
    with Cons.prems True D have "ExportEvents X net d events (tr1 @ [Sleep 50]) = (Returned, tr')"
      by simp
    from Cons.IH [OF this] have "posts tr' = posts (tr1 @ [Sleep 50]) @ map (the_request X d) (filter (passes d) events)" .
    moreover have "posts tr1 = posts tr @ (if namespace_skip d event \<or> kind_skip d event then [] else [the_request X d event])"
      using Ding_posts [of X net d event tr] D by simp
    moreover have "posts [Sleep 50] = []" by (simp add: posts_def)
    moreover have "passes d event \<longleftrightarrow> \<not> (namespace_skip d event \<or> kind_skip d event)"
      using True by (simp add: passes_def gate_eq)
    ultimately show ?thesis by (simp add: posts_append)
  qed
qed

lemma ExportEvents_returned_sleeps:
  "ExportEvents X net d batch tr = (Returned, tr') \<Longrightarrow>
     sleeps tr' = sleeps tr @
       replicate (length (filter (\<lambda>event. isEventLevelDangerous d (Type event)) batch)) (Sleep 50)"
proof (induction batch arbitrary: tr)
  case Nil
  then show ?case by simp
next
  case (Cons event events)
  show ?case
  proof (cases "isEventLevelDangerous d (Type event)")
    case False
    with Cons show ?thesis by simp
  next
    case True
    obtain oc tr1 where D: "Ding X net d event tr = (oc, tr1)" by (cases "Ding X net d event tr")
    with Cons.prems True have oc: "oc = Returned"
      by (cases oc) simp_all
    with Cons.prems True D have "ExportEvents X net d events (tr1 @ [Sleep 50]) = (Returned, tr')"
      by simp
    from Cons.IH [OF this] have "sleeps tr' = sleeps (tr1 @ [Sleep 50]) @
       replicate (length (filter (\<lambda>event. isEventLevelDangerous d (Type event)) events)) (Sleep 50)" .
    moreover have "sleeps tr1 = sleeps tr"
      using Ding_sleeps [of X net d event tr] D by simp
    moreover have "sleeps [Sleep 50] = [Sleep 50]" by (simp add: sleeps_def)
    ultimately show ?thesis using True by (simp add: sleeps_append replicate_app_Cons_same)
  qed
qed

lemma ExportEvents_posts_sound:
  "a \<in> set (posts (snd (ExportEvents X net d batch tr))) \<Longrightarrow>
     a \<in> set (posts tr) \<or> (\<exists>event \<in> set batch. passes d event \<and> a = the_request X d event)"
proof (induction batch arbitrary: tr)
  case Nil
  then show ?case by simp
next
  case (Cons event events)
  show ?case
  proof (cases "isEventLevelDangerous d (Type event)")
    case False
    with Cons.prems have "a \<in> set (posts (snd (ExportEvents X net d events tr)))" by simp
    from Cons.IH [OF this] show ?thesis by auto
  next
    case True
    obtain oc tr1 where D: "Ding X net d event tr = (oc, tr1)" by (cases "Ding X net d event tr")
    have P: "posts tr1 = posts tr @ (if namespace_skip d event \<or> kind_skip d event then [] else [the_request X d event])"
      using Ding_posts [of X net d event tr] D by simp
    have here: "a \<in> set (posts tr1) \<Longrightarrow> ?thesis"
      using P True by (auto simp add: passes_def gate_eq split: if_splits)
    show ?thesis
    proof (cases oc)
      case Returned
      with Cons.prems True D
      have "a \<in> set (posts (snd (ExportEvents X net d events (tr1 @ [Sleep 50]))))" by simp
      from Cons.IH [OF this] have "a \<in> set (posts (tr1 @ [Sleep 50])) \<or>
         (\<exists>event \<in> set events. passes d event \<and> a = the_request X d event)" .
      then show ?thesis using here by (auto simp add: posts_append posts_def)
    next
      case (Panicked p)
      with Cons.prems True D have "a \<in> set (posts tr1)" by simp
      then show ?thesis by (rule here)
    qed
  qed
qed

lemma ExportEvents_reply_ok:
  "fst (ExportEvents X (reply 200) d batch tr) = Returned"
proof (induction batch arbitrary: tr)
  case Nil
  then show ?case by simp
next
  case (Cons event events)
  have "fst (Ding X (reply 200) d event tr) = Returned"
    by (simp add: Ding_eq reply_def after_post_cases)
  then obtain tr1 where "Ding X (reply 200) d event tr = (Returned, tr1)"
    by (cases "Ding X (reply 200) d event tr") simp
  with Cons show ?case by simp
qed

subsection \<open>The constructor\<close>

lemma getValues_absent: "getValues [] = Inl IndexOutOfRange"
  by (simp add: getValues_def)

lemma getValues_present:
  "getValues (v # vs) = Inr (if v = [] then None else Some (Split v))"
  by (simp add: getValues_def)

lemma NewDingTalkSink_error_iff:
  "(\<exists>msg. NewDingTalkSink uri = Inl (Error msg)) \<longleftrightarrow> Query uri ''access_token'' = []"
  by (cases "Query uri ''access_token''")
     (auto simp add: NewDingTalkSink_def Let_def split: sum.splits)

lemma NewDingTalkSink_panic_iff:
  "(\<exists>p. NewDingTalkSink uri = Inl (Panic p)) \<longleftrightarrow>
     Query uri ''access_token'' \<noteq> [] \<and> (Query uri ''namespaces'' = [] \<or> Query uri ''kinds'' = [])"
  by (cases "Query uri ''access_token''"; cases "Query uri ''namespaces''"; cases "Query uri ''kinds''")
     (simp_all add: NewDingTalkSink_def Let_def getValues_absent getValues_present)

lemma NewDingTalkSink_success:
  assumes "Query uri ''access_token'' = t # ts" "Query uri ''namespaces'' = n # ns"
    "Query uri ''kinds'' = k # ks"
  shows "\<exists>d. NewDingTalkSink uri = Inr d \<and> Token d = t \<and>
           Namespaces d = (if n = [] then None else Some (Split n)) \<and>
           Kinds d = (if k = [] then None else Some (Split k))"
  using assms by (simp add: NewDingTalkSink_def Let_def getValues_present)





subsection \<open>The actions of one call of the deliver routine\<close>

lemma after_post_returned:
  "after_post r tr = (Returned, tr1) \<Longrightarrow>
     \<exists>lg. tr1 = tr @ lg \<and> length lg \<le> 1 \<and> (\<forall>a \<in> set lg. is_log a)"
  by (cases r) (auto simp add: after_post_cases split: option.splits if_splits)

lemma Ding_returned:
  assumes "Ding X net d event tr = (Returned, tr1)"
  shows "\<exists>lg. length lg \<le> 1 \<and> (\<forall>a \<in> set lg. is_log a) \<and>
           tr1 = tr @ (if namespace_skip d event \<or> kind_skip d event then []
                       else the_request X d event # lg)"
proof (cases "namespace_skip d event \<or> kind_skip d event")
  case True
  with assms have "tr1 = tr" by (simp add: Ding_eq)
  with True show ?thesis by (intro exI [of _ "[]"]) simp
next
  case False
  with assms have "after_post (net (tr @ [the_request X d event])) (tr @ [the_request X d event])
      = (Returned, tr1)"
    by (simp add: Ding_eq)
  from after_post_returned [OF this] False show ?thesis by auto
qed

lemma ExportEvents_returned_trace:
  "ExportEvents X net d batch tr = (Returned, tr') \<Longrightarrow>
     \<exists>logs. length logs = length batch \<and>
       (\<forall>lg \<in> set logs. length lg \<le> 1 \<and> (\<forall>a \<in> set lg. is_log a)) \<and>
       tr' = tr @ concat (map (\<lambda>(event, lg).
                if isEventLevelDangerous d (Type event)
                then (if namespace_skip d event \<or> kind_skip d event then []
                      else the_request X d event # lg) @ [Sleep 50]
                else []) (zip batch logs))"
proof (induction batch arbitrary: tr)
  case Nil
  then show ?case by simp
next
  case (Cons event events)
  show ?case
  proof (cases "isEventLevelDangerous d (Type event)")
    case False
    with Cons.prems have "ExportEvents X net d events tr = (Returned, tr')" by simp
    from Cons.IH [OF this] obtain logs where L: "length logs = length events"
      "\<forall>lg \<in> set logs. length lg \<le> 1 \<and> (\<forall>a \<in> set lg. is_log a)"
      "tr' = tr @ concat (map (\<lambda>(event, lg).
                if isEventLevelDangerous d (Type event)
                then (if namespace_skip d event \<or> kind_skip d event then []
                      else the_request X d event # lg) @ [Sleep 50]
                else []) (zip events logs))"
      by blast
    with False show ?thesis by (intro exI [of _ "[] # logs"]) simp
  next
    case True
    obtain oc tr1 where D: "Ding X net d event tr = (oc, tr1)" by (cases "Ding X net d event tr")
    with Cons.prems True have oc: "oc = Returned"
      by (cases oc) simp_all
    with Cons.prems True D have "ExportEvents X net d events (tr1 @ [Sleep 50]) = (Returned, tr')"
      by simp
    from Cons.IH [OF this] obtain logs where L: "length logs = length events"
      "\<forall>lg \<in> set logs. length lg \<le> 1 \<and> (\<forall>a \<in> set lg. is_log a)"
      "tr' = (tr1 @ [Sleep 50]) @ concat (map (\<lambda>(event, lg).
                if isEventLevelDangerous d (Type event)
                then (if namespace_skip d event \<or> kind_skip d event then []
                      else the_request X d event # lg) @ [Sleep 50]
                else []) (zip events logs))"
      by blast
    from Ding_returned [of X net d event tr tr1] D oc
    obtain lg where G: "length lg \<le> 1" "\<forall>a \<in> set lg. is_log a"
      "tr1 = tr @ (if namespace_skip d event \<or> kind_skip d event then []
                   else the_request X d event # lg)"
      by blast
    from L G True show ?thesis by (intro exI [of _ "lg # logs"]) simp
  qed
qed

section \<open>Delivery failures\<close>

text \<open>
  C1. The claim: when the POST fails (the transport call returns an error, or the status
  is not 200), \<open>Ding\<close> logs an error and returns normally to its caller, without a retry;
  a destination answering HTTP 500 with a nil transport error still yields a normal return.

  The code at that input: the webhook answers HTTP 500 with a nil error. \<open>Ding\<close> sends the
  one POST, then line 151 evaluates \<open>err.Error()\<close> on the nil \<open>err\<close>: the routine
  panics with a nil dereference, and nothing is logged.
\<close>

theorem Ding_http_500_panics:
  "Ding X (reply 500) plain_sink pod_warning [] =
     (Panicked NilPointerDereference,
      [HttpPost ''https://oapi.dingtalk.com/robot/send?access_token=tok123'' ''application/json''
         (JObject [(''msgtype'', JString ''text''),
                   (''text'', JObject [(''content'', JString
     ''Level:Warning \<newline>Kind:Pod \<newline>Namespace:default \<newline>Name:web-1 \<newline>Reason:BackOff \<newline>Timestamp:2020-01-02 03:04:05 +0000 UTC \<newline>Message:restarting'')])])])"
  by (simp add: Ding_eq namespace_skip_def kind_skip_def plain_sink_def pod_warning_def reply_def
      after_post_cases the_request_def Sprintf_def MSG_TEMPLATE_def extraArgs_def byte_def)

text \<open>
  The same holds for every sink, event and status other than 200, and for a transport
  error, where \<open>http.Post\<close> returns a nil response and line 151 reads
  \<open>resp.StatusCode\<close>. The error line is logged, and the routine returns, only when
  \<open>http.Post\<close> gives both a response and an error.
\<close>

lemma Ding_panics_on_bad_status:
  assumes "\<not> namespace_skip d event" "\<not> kind_skip d event"
    and "net (tr @ [the_request X d event]) = (Some rs, None)" "StatusCode rs \<noteq> 200"
  shows "Ding X net d event tr = (Panicked NilPointerDereference, tr @ [the_request X d event])"
  using assms by (simp add: Ding_eq after_post_cases)

lemma Ding_panics_on_transport_error:
  assumes "\<not> namespace_skip d event" "\<not> kind_skip d event"
    and "net (tr @ [the_request X d event]) = (None, err)"
  shows "Ding X net d event tr = (Panicked NilPointerDereference, tr @ [the_request X d event])"
  using assms by (simp add: Ding_eq after_post_cases)

lemma Ding_logs_only_with_both:
  assumes "\<not> namespace_skip d event" "\<not> kind_skip d event"
    and "net (tr @ [the_request X d event]) = (Some rs, Some e)"
  shows "Ding X net d event tr = (Returned, tr @ [the_request X d event, LogError e (StatusCode rs)])"
  using assms by (simp add: Ding_eq after_post_cases)

section \<open>Construction\<close>

text \<open>
  C2. The claim: \<open>NewDingTalkSink\<close> returns an error exactly when \<open>access_token\<close> is
  absent; for every URI with an \<open>access_token\<close> it returns a sink, with \<open>Namespaces\<close>
  and \<open>Kinds\<close> nil when the parameter is absent or empty and the comma-split list
  otherwise.

  The code at the URI of its own usage comment, which has an \<open>access_token\<close> and neither
  \<open>namespaces\<close> nor \<open>kinds\<close>: \<open>getValues\<close> reads \<open>o[0]\<close> of the nil slice and the
  constructor panics with an index out of range.
\<close>

theorem NewDingTalkSink_usage_uri_panics:
  "NewDingTalkSink usage_uri = Inl (Panic IndexOutOfRange)"
  by (simp add: NewDingTalkSink_def usage_uri_def getValues_def Let_def)

section \<open>Which events are delivered\<close>

text \<open>
  C3. The claim: for every batch given to \<open>ExportEvents\<close>, a delivery is attempted for an
  event if and only if its namespace passes the namespace allow-list, its kind passes the
  kind allow-list and its severity score is at least \<open>Level\<close>.

  The code on a batch of two events that both pass the three filters, when the webhook
  answers the first POST with HTTP 500: the panic of \<open>Ding\<close> ends the run, and no
  delivery is attempted for the second event.
\<close>

theorem ExportEvents_aborts_after_failed_delivery:
  "\<not> namespace_skip plain_sink (pod_warning\<lparr>Name := ''web-2''\<rparr>) \<and>
   \<not> kind_skip plain_sink (pod_warning\<lparr>Name := ''web-2''\<rparr>) \<and>
   getLevel (Type (pod_warning\<lparr>Name := ''web-2''\<rparr>)) \<ge> Level plain_sink \<and>
   ExportEvents X fail_first plain_sink [pod_warning, pod_warning\<lparr>Name := ''web-2''\<rparr>] [] =
     (Panicked NilPointerDereference,
      [HttpPost ''https://oapi.dingtalk.com/robot/send?access_token=tok123'' ''application/json''
         (JObject [(''msgtype'', JString ''text''),
                   (''text'', JObject [(''content'', JString
     ''Level:Warning \<newline>Kind:Pod \<newline>Namespace:default \<newline>Name:web-1 \<newline>Reason:BackOff \<newline>Timestamp:2020-01-02 03:04:05 +0000 UTC \<newline>Message:restarting'')])])])"
  by (simp add: Ding_eq namespace_skip_def kind_skip_def plain_sink_def pod_warning_def
      fail_first_def after_post_cases isEventLevelDangerous_def getLevel_def
      EventTypeWarning_def EventTypeNormal_def posts_def the_request_def
      Sprintf_def MSG_TEMPLATE_def extraArgs_def byte_def)

text \<open>
  C4. The claim: \<open>Ding\<close> itself applies the severity filter, so that calling it on an event
  whose score is below \<open>Level\<close> attempts no delivery.

  \<open>Ding\<close> reads neither \<open>Level\<close> nor the score: the severity is checked by
  \<open>ExportEvents\<close> alone. Amended: for every config and event, whatever the event's type
  and the config's level, \<open>Ding\<close> called directly attempts a delivery if and only if
  the event passes the namespace check and the kind check.
\<close>

theorem Ding_filters_namespace_and_kind_only:
  "(posts (snd (Ding X net (d\<lparr>Level := l\<rparr>) (event\<lparr>Type := t\<rparr>) [])) \<noteq> []) =
     (\<not> namespace_skip d event \<and> \<not> kind_skip d event)"
  by (simp add: Ding_posts namespace_skip_upd kind_skip_upd posts_Nil)

theorem Ding_filters_namespace_and_kind_only_witness:
  "posts (snd (Ding unused_directives (reply 200) (plain_sink\<lparr>Level := 2\<rparr>) (pod_warning\<lparr>Type := ''Normal''\<rparr>) [])) \<noteq> [] \<and>
   posts (snd (Ding unused_directives (reply 200) (ns_a_sink\<lparr>Level := 0\<rparr>) (pod_warning\<lparr>Type := ''Warning''\<rparr>) [])) = []"
  using Ding_filters_namespace_and_kind_only [where X = unused_directives and net = "reply 200"
      and d = plain_sink and l = 2 and event = pod_warning and t = "''Normal''"]
    Ding_filters_namespace_and_kind_only [where X = unused_directives and net = "reply 200"
      and d = ns_a_sink and l = 0 and event = pod_warning and t = "''Warning''"]
  by (simp add: namespace_skip_def kind_skip_def plain_sink_def ns_a_sink_def pod_warning_def)

text \<open>A "Normal" event (score 1) under level 2, given to \<open>Ding\<close>, is posted.\<close>

theorem Ding_low_severity_counterexample:
  "getLevel (Type node_normal) < Level plain_sink \<and>
   posts (snd (Ding unused_directives (reply 200) plain_sink node_normal [])) \<noteq> []"
  by (simp add: Ding_posts namespace_skip_def kind_skip_def plain_sink_def node_normal_def
      getLevel_def EventTypeWarning_def EventTypeNormal_def posts_Nil)



section \<open>The throttle\<close>

text \<open>
  C6. The claim: the 50ms sleep occurs after each delivered notification and only then,
  so the number of sleeps of a batch equals the number of notifications delivered.

  The sleep follows the call of \<open>Ding\<close>, whether or not \<open>Ding\<close> sent anything. Amended:
  a run of \<open>ExportEvents\<close> that returns does, for the events of the batch in order, the
  following and nothing else. For an event that fails the severity gate
  \<open>isEventLevelDangerous\<close>: nothing. For an event that passes it: the call of \<open>Ding\<close>
  (no action when the namespace or kind check drops the event; otherwise the POST,
  followed by at most one log line), and directly after it one 50ms sleep. So there is one
  sleep for every event that passes the gate, delivered or not, and none for the others;
  the deliveries attempted are those of the gated events that pass both checks, at most
  as many as the sleeps.
\<close>

theorem sleep_after_each_gated_event:
  assumes "ExportEvents X net d batch [] = (Returned, tr)"
  shows "(\<exists>logs. length logs = length batch \<and>
            (\<forall>lg \<in> set logs. length lg \<le> 1 \<and> (\<forall>a \<in> set lg. is_log a)) \<and>
            tr = concat (map (\<lambda>(event, lg).
                   if isEventLevelDangerous d (Type event)
                   then (if namespace_skip d event \<or> kind_skip d event then []
                         else the_request X d event # lg) @ [Sleep 50]
                   else []) (zip batch logs))) \<and>
         sleeps tr =
           replicate (length (filter (\<lambda>event. isEventLevelDangerous d (Type event)) batch)) (Sleep 50) \<and>
         length (posts tr) =
           length (filter (\<lambda>event. isEventLevelDangerous d (Type event) \<and>
                                    \<not> namespace_skip d event \<and> \<not> kind_skip d event) batch) \<and>
         length (posts tr) \<le> length (sleeps tr)"
proof -
  let ?gate = "\<lambda>event. isEventLevelDangerous d (Type event)"
  have t: "\<exists>logs. length logs = length batch \<and>
            (\<forall>lg \<in> set logs. length lg \<le> 1 \<and> (\<forall>a \<in> set lg. is_log a)) \<and>
            tr = concat (map (\<lambda>(event, lg).
                   if isEventLevelDangerous d (Type event)
                   then (if namespace_skip d event \<or> kind_skip d event then []
                         else the_request X d event # lg) @ [Sleep 50]
                   else []) (zip batch logs))"
    using ExportEvents_returned_trace [OF assms] by simp
  have s: "sleeps tr = replicate (length (filter ?gate batch)) (Sleep 50)"
    using ExportEvents_returned_sleeps [OF assms] by (simp add: sleeps_Nil)
  have "posts tr = map (the_request X d) (filter (passes d) batch)"
    using ExportEvents_returned_posts [OF assms] by (simp add: posts_Nil)
  moreover have pe: "passes d = (\<lambda>event. ?gate event \<and> \<not> namespace_skip d event \<and> \<not> kind_skip d event)"
    by (auto simp add: passes_def gate_eq fun_eq_iff)
  ultimately have p: "length (posts tr) = length (filter (\<lambda>event. ?gate event \<and>
                                    \<not> namespace_skip d event \<and> \<not> kind_skip d event) batch)"
    by simp
  have "length (filter (\<lambda>event. ?gate event \<and> \<not> namespace_skip d event \<and> \<not> kind_skip d event) batch)
      \<le> length (filter ?gate batch)"
    by (induction batch) auto
  with t s p show ?thesis by simp
qed

text \<open>
  A run over a gated event that the namespace check drops, an event below the threshold
  and a gated event that is delivered: a sleep, then the POST and a sleep.
\<close>

theorem sleep_after_each_gated_event_witness:
  "\<exists>logs. length logs = length [pod_warning, node_normal, pod_warning\<lparr>Namespace := ''ns-a''\<rparr>] \<and>
      (\<forall>lg \<in> set logs. length lg \<le> 1 \<and> (\<forall>a \<in> set lg. is_log a)) \<and>
      [Sleep 50, the_request unused_directives ns_a_sink (pod_warning\<lparr>Namespace := ''ns-a''\<rparr>), Sleep 50] =
        concat (map (\<lambda>(event, lg).
                   if isEventLevelDangerous ns_a_sink (Type event)
                   then (if namespace_skip ns_a_sink event \<or> kind_skip ns_a_sink event then []
                         else the_request unused_directives ns_a_sink event # lg) @ [Sleep 50]
                   else []) (zip [pod_warning, node_normal, pod_warning\<lparr>Namespace := ''ns-a''\<rparr>] logs))"
proof -
  have run: "ExportEvents unused_directives (reply 200) ns_a_sink
       [pod_warning, node_normal, pod_warning\<lparr>Namespace := ''ns-a''\<rparr>] [] =
     (Returned, [Sleep 50, the_request unused_directives ns_a_sink (pod_warning\<lparr>Namespace := ''ns-a''\<rparr>), Sleep 50])"
    by (simp add: Ding_eq namespace_skip_def kind_skip_def ns_a_sink_def plain_sink_def pod_warning_def
      node_normal_def isEventLevelDangerous_def getLevel_def EventTypeWarning_def EventTypeNormal_def
      reply_def after_post_cases)
  show ?thesis
    using sleep_after_each_gated_event [OF run] by blast
qed

text \<open>
  A "Warning" event in namespace "default", under the allow-list \<open>["ns-a"]\<close>: nothing is
  sent and the run sleeps once.
\<close>

theorem sleep_without_delivery_counterexample:
  "namespace_skip ns_a_sink pod_warning \<and>
   ExportEvents unused_directives (reply 200) ns_a_sink [pod_warning] [] = (Returned, [Sleep 50])"
  by (simp add: Ding_eq namespace_skip_def ns_a_sink_def plain_sink_def pod_warning_def
      isEventLevelDangerous_def getLevel_def EventTypeWarning_def EventTypeNormal_def)

section \<open>The rendered message\<close>

text \<open>
  C7. The claim: for every event and every label list, the rendered text is the label
  lines in reverse list order followed by the seven-field base template; for the labels
  \<open>["cluster-1", "env-prod"]\<close> it begins with the line "env-prod", then "cluster-1".

  The renderer puts the label text into the format string of the last \<open>Sprintf\<close>. The
  code at the label \<open>100%\<close>: the percent sign and the line feed after it are read as a
  directive, which takes the event's type as its operand; every field moves down by one
  line and the last one is reported missing.
\<close>

theorem createMsgFromEvent_percent_label:
  "createMsgFromEvent X [''100%''] pod_warning =
     Some \<lparr>MsgType = ''text'',
            Text = \<lparr>Content =
   ''100%!\<newline>(string=Warning)Level:Pod \<newline>Kind:default \<newline>Namespace:web-1 \<newline>Name:BackOff \<newline>Reason:2020-01-02 03:04:05 +0000 UTC \<newline>Timestamp:restarting \<newline>Message:%!s(MISSING)''\<rparr>\<rparr>"
  by (simp add: createMsgFromEvent_eq Sprintf_def MSG_TEMPLATE_def extraArgs_def pod_warning_def)

text \<open>
  For labels without a percent sign the rendered text is as the claim says, and so it is
  for the two labels of the claim.
\<close>

lemma createMsgFromEvent_plain_labels:
  assumes "\<forall>label \<in> set labels. CHR ''%'' \<notin> set label"
  shows "createMsgFromEvent X labels event =
     Some \<lparr>MsgType = ''text'',
            Text = \<lparr>Content = concat (map (\<lambda>label. label @ ''\<newline>'') (rev labels)) @ base_text event\<rparr>\<rparr>"
proof -
  have "CHR ''%'' \<notin> set (concat (map (\<lambda>label. label @ ''\<newline>'') (rev labels)))"
    using assms by auto
  then show ?thesis
    by (simp only: createMsgFromEvent_eq foldl_labels Sprintf_def doPrintf_literal
        Sprintf_MSG_TEMPLATE not_False_eq_True)
qed

lemma createMsgFromEvent_two_labels:
  "createMsgFromEvent X [''cluster-1'', ''env-prod''] event =
     Some \<lparr>MsgType = ''text'',
            Text = \<lparr>Content = ''env-prod\<newline>cluster-1\<newline>'' @ base_text event\<rparr>\<rparr>"
  using createMsgFromEvent_plain_labels [of "[''cluster-1'', ''env-prod'']" X event] by simp

section \<open>The outbound call\<close>

text \<open>
  C9. The claim: every delivery attempt is one HTTP POST to
  \<open>https://{Endpoint}?access_token={Token}\<close> with content type "application/json" and the
  body \<open>{"msgtype":"text","text":{"content":<rendered message>}}\<close>, the message type
  being the fixed string "text".

  \<open>json.Marshal\<close> does not keep a byte of the rendered message that is not part of a
  well-formed UTF-8 encoding. Amended: every delivery attempt is one HTTP POST to that
  URL with that content type and the body \<open>{"msgtype":"text","text":{"content":c}}\<close>,
  where \<open>c\<close> is the rendered message with each byte that is not part of a well-formed UTF-8
  encoding replaced by U+FFFD, and so the rendered message itself when that is valid
  UTF-8; the message type is always "text". A call of \<open>Ding\<close> adds to the trace exactly
  that request when the event passes the namespace and kind checks, and no request
  otherwise.
\<close>

theorem Ding_posts_once:
  "\<exists>content.
     createMsgFromEvent X (Labels d) event =
       Some \<lparr>MsgType = ''text'', Text = \<lparr>Content = content\<rparr>\<rparr> \<and>
     posts (snd (Ding X net d event tr)) =
       posts tr @
       (if namespace_skip d event \<or> kind_skip d event then []
        else [HttpPost (''https://'' @ Endpoint d @ ''?access_token='' @ Token d)
                ''application/json''
                (JObject [(''msgtype'', JString ''text''),
                          (''text'', JObject [(''content'', JString (coerceUTF8 0 content))])])]) \<and>
     (validUTF8 0 content \<longrightarrow> coerceUTF8 0 content = content)"
  by (simp add: createMsgFromEvent_eq Ding_posts the_request_def coerceUTF8_valid)

theorem Ding_posts_once_witness:
  "validUTF8 0 ''Level:Warning \<newline>Kind:Pod \<newline>Namespace:default \<newline>Name:web-1 \<newline>Reason:BackOff \<newline>Timestamp:2020-01-02 03:04:05 +0000 UTC \<newline>Message:restarting'' \<and>
   posts (snd (Ding unused_directives (reply 200) plain_sink pod_warning [])) =
     [HttpPost ''https://oapi.dingtalk.com/robot/send?access_token=tok123'' ''application/json''
        (JObject [(''msgtype'', JString ''text''),
                  (''text'', JObject [(''content'', JString
     ''Level:Warning \<newline>Kind:Pod \<newline>Namespace:default \<newline>Name:web-1 \<newline>Reason:BackOff \<newline>Timestamp:2020-01-02 03:04:05 +0000 UTC \<newline>Message:restarting'')])])]"
proof -
  have c: "createMsgFromEvent unused_directives (Labels plain_sink) pod_warning =
      Some \<lparr>MsgType = ''text'', Text = \<lparr>Content =
     ''Level:Warning \<newline>Kind:Pod \<newline>Namespace:default \<newline>Name:web-1 \<newline>Reason:BackOff \<newline>Timestamp:2020-01-02 03:04:05 +0000 UTC \<newline>Message:restarting''\<rparr>\<rparr>"
    by (simp add: createMsgFromEvent_eq Sprintf_def MSG_TEMPLATE_def extraArgs_def pod_warning_def plain_sink_def)
  have v: "validUTF8 0 ''Level:Warning \<newline>Kind:Pod \<newline>Namespace:default \<newline>Name:web-1 \<newline>Reason:BackOff \<newline>Timestamp:2020-01-02 03:04:05 +0000 UTC \<newline>Message:restarting''"
    by (simp add: byte_def)
  have f: "\<not> (namespace_skip plain_sink pod_warning \<or> kind_skip plain_sink pod_warning)"
    by (simp add: namespace_skip_def kind_skip_def plain_sink_def)
  have e: "Endpoint plain_sink = ''oapi.dingtalk.com/robot/send''" "Token plain_sink = ''tok123''"
    by (simp_all add: plain_sink_def)
  obtain content where
    1: "createMsgFromEvent unused_directives (Labels plain_sink) pod_warning =
          Some \<lparr>MsgType = ''text'', Text = \<lparr>Content = content\<rparr>\<rparr>"
    and 2: "posts (snd (Ding unused_directives (reply 200) plain_sink pod_warning [])) =
       posts [] @
       (if namespace_skip plain_sink pod_warning \<or> kind_skip plain_sink pod_warning then []
        else [HttpPost (''https://'' @ Endpoint plain_sink @ ''?access_token='' @ Token plain_sink)
                ''application/json''
                (JObject [(''msgtype'', JString ''text''),
                          (''text'', JObject [(''content'', JString (coerceUTF8 0 content))])])])"
    and 3: "validUTF8 0 content \<longrightarrow> coerceUTF8 0 content = content"
    using Ding_posts_once [of unused_directives plain_sink pod_warning "reply 200" "[]"] by blast
  from 1 c have content: "content = ''Level:Warning \<newline>Kind:Pod \<newline>Namespace:default \<newline>Name:web-1 \<newline>Reason:BackOff \<newline>Timestamp:2020-01-02 03:04:05 +0000 UTC \<newline>Message:restarting''"
    by simp
  from 3 v content have "coerceUTF8 0 content = content" by simp
  with 2 f e content v show ?thesis
    by (simp only: posts_Nil append_Nil if_False simp_thms) simp
qed

text \<open>
  Under the label that is the byte 0xFF, the rendered message starts with that byte and
  the content posted starts with the three bytes of U+FFFD.
\<close>

theorem Ding_posts_rendered_counterexample:
  "createMsgFromEvent unused_directives (Labels ff_sink) pod_warning =
     Some \<lparr>MsgType = ''text'', Text = \<lparr>Content = CHR 0xFF #
     ''\<newline>Level:Warning \<newline>Kind:Pod \<newline>Namespace:default \<newline>Name:web-1 \<newline>Reason:BackOff \<newline>Timestamp:2020-01-02 03:04:05 +0000 UTC \<newline>Message:restarting''\<rparr>\<rparr> \<and>
   posts (snd (Ding unused_directives (reply 200) ff_sink pod_warning [])) =
     [HttpPost ''https://oapi.dingtalk.com/robot/send?access_token=tok123'' ''application/json''
        (JObject [(''msgtype'', JString ''text''),
                  (''text'', JObject [(''content'', JString (CHR 0xEF # CHR 0xBF # CHR 0xBD #
     ''\<newline>Level:Warning \<newline>Kind:Pod \<newline>Namespace:default \<newline>Name:web-1 \<newline>Reason:BackOff \<newline>Timestamp:2020-01-02 03:04:05 +0000 UTC \<newline>Message:restarting''))])])]"
  by (simp add: createMsgFromEvent_eq Ding_posts the_request_def Sprintf_def MSG_TEMPLATE_def
      extraArgs_def pod_warning_def plain_sink_def ff_sink_def namespace_skip_def kind_skip_def
      posts_Nil byte_def DecodeRuneInString_def firstByte_def RuneError_def)

section \<open>An unknown level\<close>

text \<open>
  C10. When the construction URI gives a \<open>level\<close> that is neither "Warning" nor "Normal",
  the threshold of the sink that is built is 0, and \<open>isEventLevelDangerous\<close> is true of
  every event type, those of score 0 included.
\<close>

theorem unknown_level_opens_gate:
  assumes "NewDingTalkSink uri = Inr d"
    and "Query uri ''level'' = v # vs" and "v \<noteq> ''Warning''" and "v \<noteq> ''Normal''"
  shows "Level d = 0 \<and> (\<forall>t. isEventLevelDangerous d t)"
proof -
  have lv: "Level d = getLevel v"
    using assms(1,2)
    by (auto simp add: NewDingTalkSink_def Let_def split: if_splits sum.splits)
  have "getLevel v = 0"
    using assms(3,4) by (simp add: getLevel_def EventTypeWarning_def EventTypeNormal_def)
  moreover have "0 \<le> getLevel t" for t
    by (simp add: getLevel_def)
  ultimately show ?thesis
    using lv by (simp add: isEventLevelDangerous_def)
qed

theorem unknown_level_opens_gate_witness:
  "\<exists>d. NewDingTalkSink (full_uri ''Critical'') = Inr d \<and> Level d = 0 \<and>
        isEventLevelDangerous d ''Warning'' \<and> isEventLevelDangerous d ''Normal'' \<and>
        isEventLevelDangerous d ''Unknown''"
proof -
  have c: "NewDingTalkSink (full_uri ''Critical'') =
    Inr \<lparr>Endpoint = ''oapi.dingtalk.com/robot/send'', Namespaces = Some [''default''],
         Kinds = Some [''Pod'', ''Node''], Token = ''tok123'', Level = 0, Labels = [''foo'']\<rparr>"
    by (simp add: NewDingTalkSink_def full_uri_def getValues_def Let_def getLevel_def
        EventTypeWarning_def EventTypeNormal_def WARNING_def)
  have q: "Query (full_uri ''Critical'') ''level'' = ''Critical'' # []"
    by (simp add: full_uri_def)
  show ?thesis
    using unknown_level_opens_gate [OF c q] c by simp
qed

section \<open>The severity classifier\<close>

text \<open>
  C8. \<open>getLevel\<close> is a function from strings to integers with no other effect and no
  failure: it gives 2 for "Warning", 1 for "Normal" and 0 for every other string.
\<close>

theorem getLevel_classifies:
  "getLevel ''Warning'' = 2 \<and> getLevel ''Normal'' = 1 \<and>
   (\<forall>level. level \<noteq> ''Warning'' \<and> level \<noteq> ''Normal'' \<longrightarrow> getLevel level = 0)"
  by (simp add: getLevel_def EventTypeWarning_def EventTypeNormal_def)

theorem getLevel_classifies_witness:
  "getLevel ''Warning'' = 2 \<and> getLevel ''Normal'' = 1 \<and> getLevel ''Killing'' = 0 \<and> getLevel [] = 0"
  using getLevel_classifies by simp

end
